theory Spec2Isabelle
  imports Complex_Main "HOL-Library.List_Lexorder" "HOL-Library.Char_ord"
begin

section \<open>Python values and exceptions\<close>

text \<open>
  The module \<^verbatim>\<open>pyddm/ddm/sample.py\<close> stores reaction times and condition values in
  one-dimensional numpy arrays and in plain Python lists. The two kinds of sequence behave
  differently (\<^verbatim>\<open>+\<close> adds arrays element-wise and concatenates lists; only an array has
  \<^verbatim>\<open>flags.writeable\<close>; only an array passes \<^verbatim>\<open>x in NDArray(d=1, t=Number)\<close>), so the
  model keeps the kind. Numbers are idealised as reals.
\<close>

datatype pyseq =
    NDArray bool "real list"
  | PyList "real list"

text \<open>The elements of a sequence, and Python's \<^verbatim>\<open>len\<close>.\<close>

fun vals :: "pyseq \<Rightarrow> real list" where
  "vals (NDArray w xs) = xs"
| "vals (PyList xs) = xs"

fun is_ndarray :: "pyseq \<Rightarrow> bool" where
  "is_ndarray (NDArray w xs) = True"
| "is_ndarray (PyList xs) = False"

text \<open>
  \<^verbatim>\<open>readonly a\<close> holds when \<^verbatim>\<open>a\<close> is an array whose \<^verbatim>\<open>flags.writeable\<close> is False.
  A Python list has no such flag and can always be written.
\<close>

fun readonly :: "pyseq \<Rightarrow> bool" where
  "readonly (NDArray w xs) = (\<not> w)"
| "readonly (PyList xs) = False"

text \<open>
  Exceptions. An \<^verbatim>\<open>AssertionError\<close> carries the literal message of the \<^verbatim>\<open>assert\<close> that
  raised it (empty when the statement has none; the \<^verbatim>\<open>str(type(...))\<close> suffix of the
  first two messages of the constructor is left out). \<^verbatim>\<open>AcceptsError\<close>,
  \<^verbatim>\<open>RequiresError\<close>, \<^verbatim>\<open>EnsuresError\<close> and \<^verbatim>\<open>ReturnsError\<close> stand for the failure of
  the decorator of that name.
\<close>

datatype error =
    AssertionError string
  | IndexError
  | KeyError
  | ValueError
  | TypeError
  | ZeroDivisionError
  | StopIteration
  | AcceptsError
  | RequiresError
  | EnsuresError
  | ReturnsError

section \<open>The Sample class\<close>

text \<open>
  \<^verbatim>\<open>self.conditions\<close> is the dictionary of keyword arguments: an association list in
  insertion order. Each value is the tuple that was passed, a list of its elements.
\<close>

type_synonym conds = "(string \<times> pyseq list) list"

record Sample =
  corr :: pyseq
  err :: pyseq
  non_decision :: int
  conditions :: conds

subsection \<open>\<^verbatim>\<open>__init__\<close>\<close>

text \<open>
  The loop over \<^verbatim>\<open>kwargs.items()\<close>: the assertions in the order of the source, and the
  first two arrays of each tuple marked read-only. \<^verbatim>\<open>lc\<close> and \<^verbatim>\<open>le\<close> are
  \<^verbatim>\<open>len(self.corr)\<close> and \<^verbatim>\<open>len(self.err)\<close>.
\<close>

fun init_conditions :: "nat \<Rightarrow> nat \<Rightarrow> int \<Rightarrow> conds \<Rightarrow> error + conds" where
  "init_conditions lc le nd [] = Inr []"
| "init_conditions lc le nd ((k, v) # kwargs) =
    (if length v \<noteq> 2 \<and> length v \<noteq> 3 then Inl (AssertionError [])
     else (case v ! 0 of
        PyList _ \<Rightarrow> Inl (AssertionError [])
      | NDArray _ v0 \<Rightarrow>
        (case v ! 1 of
          PyList _ \<Rightarrow> Inl (AssertionError [])
        | NDArray _ v1 \<Rightarrow>
            if length v0 \<noteq> lc then Inl (AssertionError [])
            else if length v1 \<noteq> le then Inl (AssertionError [])
            else if length v = 3 \<and> int (length (vals (v ! 2))) \<noteq> nd
              then Inl (AssertionError [])
            else if length v \<noteq> 3 \<and> nd \<noteq> 0 then Inl (AssertionError [])
            else (case init_conditions lc le nd kwargs of
                Inl e \<Rightarrow> Inl e
              | Inr cs \<Rightarrow> Inr ((k, NDArray False v0 # NDArray False v1 # drop 2 v) # cs)))))"

definition Sample_init :: "pyseq \<Rightarrow> pyseq \<Rightarrow> int \<Rightarrow> conds \<Rightarrow> error + Sample" where
  "Sample_init sample_corr sample_err nd kwargs =
    (case sample_corr of
       PyList _ \<Rightarrow> Inl (AssertionError ''sample_corr not a numpy array, it is '')
     | NDArray _ c \<Rightarrow>
       (case sample_err of
          PyList _ \<Rightarrow> Inl (AssertionError ''sample_err not a numpy array, it is '')
        | NDArray _ e \<Rightarrow>
            if nd < 0 then Inl (AssertionError ''non-decision not a natural number'')
            else (case init_conditions (length c) (length e) nd kwargs of
                Inl x \<Rightarrow> Inl x
              | Inr cs \<Rightarrow> Inr \<lparr>corr = NDArray False c, err = NDArray False e,
                               non_decision = nd, conditions = cs\<rparr>)))"

subsection \<open>\<^verbatim>\<open>__len__\<close>\<close>

definition len :: "Sample \<Rightarrow> int" where
  "len s = int (length (vals (corr s))) + int (length (vals (err s))) + non_decision s"

subsection \<open>Choice probabilities\<close>

text \<open>
  \<^verbatim>\<open>len(self.corr)/len(self)\<close> raises \<^verbatim>\<open>ZeroDivisionError\<close> when the sample is empty;
  the quotient is otherwise checked by \<^verbatim>\<open>@returns(Range(0, 1))\<close>.
\<close>

definition py_div :: "int \<Rightarrow> int \<Rightarrow> error + real" where
  "py_div a b = (if b = 0 then Inl ZeroDivisionError else Inr (real_of_int a / real_of_int b))"

definition returns_Range01 :: "error + real \<Rightarrow> error + real" where
  "returns_Range01 r =
    (case r of Inl e \<Rightarrow> Inl e
     | Inr x \<Rightarrow> if 0 \<le> x \<and> x \<le> 1 then Inr x else Inl ReturnsError)"

definition prob_correct :: "Sample \<Rightarrow> error + real" where
  "prob_correct s = returns_Range01 (py_div (int (length (vals (corr s)))) (len s))"

definition prob_error :: "Sample \<Rightarrow> error + real" where
  "prob_error s = returns_Range01 (py_div (int (length (vals (err s)))) (len s))"

definition prob_undecided :: "Sample \<Rightarrow> error + real" where
  "prob_undecided s = returns_Range01 (py_div (non_decision s) (len s))"

subsection \<open>Sequences and dictionaries\<close>

text \<open>Indexing with a non-negative index raises \<^verbatim>\<open>IndexError\<close> out of range.\<close>

definition getitem :: "'a list \<Rightarrow> nat \<Rightarrow> error + 'a" where
  "getitem xs j = (if j < length xs then Inr (xs ! j) else Inl IndexError)"

text \<open>\<^verbatim>\<open>d[k]\<close> raises \<^verbatim>\<open>KeyError\<close> for a missing key; \<^verbatim>\<open>d[k] = v\<close> keeps the position of
  a key that is already there.\<close>

definition dict_get :: "('k \<times> 'v) list \<Rightarrow> 'k \<Rightarrow> error + 'v" where
  "dict_get d k = (case map_of d k of None \<Rightarrow> Inl KeyError | Some v \<Rightarrow> Inr v)"

fun dict_set :: "('k \<times> 'v) list \<Rightarrow> 'k \<Rightarrow> 'v \<Rightarrow> ('k \<times> 'v) list" where
  "dict_set [] k v = [(k, v)]"
| "dict_set ((k', v') # d) k v = (if k' = k then (k, v) # d else (k', v') # dict_set d k v)"

subsection \<open>\<^verbatim>\<open>items\<close> and \<^verbatim>\<open>_Sample_Iter_Wraper\<close>\<close>

text \<open>The iterator object; \<^verbatim>\<open>idx\<close> is the field \<^verbatim>\<open>self.i\<close>.\<close>

record Sample_Iter_Wraper =
  sample :: Sample
  idx :: nat
  correct :: bool

definition items :: "Sample \<Rightarrow> bool \<Rightarrow> Sample_Iter_Wraper" where
  "items s c = \<lparr>sample = s, idx = 0, correct = c\<rparr>"

text \<open>The dictionary comprehension of \<^verbatim>\<open>next\<close>: the value of every condition at
  position \<^verbatim>\<open>j\<close> of partition \<^verbatim>\<open>ind\<close>.\<close>

fun cond_snapshot :: "conds \<Rightarrow> nat \<Rightarrow> nat \<Rightarrow> error + (string \<times> real) list" where
  "cond_snapshot [] ind j = Inr []"
| "cond_snapshot ((k, v) # cs) ind j =
    (case getitem v ind of
       Inl e \<Rightarrow> Inl e
     | Inr a \<Rightarrow>
       (case getitem (vals a) j of
          Inl e \<Rightarrow> Inl e
        | Inr x \<Rightarrow>
          (case cond_snapshot cs ind j of
             Inl e \<Rightarrow> Inl e
           | Inr d \<Rightarrow> Inr ((k, x) # d))))"

text \<open>
  One call of \<^verbatim>\<open>next\<close>: the value returned or the exception raised, and the iterator
  after the call (\<^verbatim>\<open>self.i\<close> is incremented before the arrays are read).
\<close>

definition Iter_next ::
  "Sample_Iter_Wraper \<Rightarrow> (error + real \<times> (string \<times> real) list) \<times> Sample_Iter_Wraper" where
  "Iter_next it =
    (if int (idx it) = len (sample it) then (Inl StopIteration, it)
     else
       (let it' = it\<lparr>idx := idx it + 1\<rparr>;
            rt = (if correct it then corr (sample it) else err (sample it));
            ind = (if correct it then 0 else 1)
        in (case getitem (vals rt) (idx it' - 1) of
              Inl e \<Rightarrow> (Inl e, it')
            | Inr t \<Rightarrow>
              (case cond_snapshot (conditions (sample it)) ind (idx it' - 1) of
                 Inl e \<Rightarrow> (Inl e, it')
               | Inr d \<Rightarrow> (Inr (t, d), it')))))"

subsection \<open>\<^verbatim>\<open>__add__\<close>\<close>

text \<open>
  numpy's \<^verbatim>\<open>+\<close> on one-dimensional arrays: element-wise, an array of length one being
  broadcast, \<^verbatim>\<open>ValueError\<close> for any other pair of different lengths.
\<close>

definition np_add :: "real list \<Rightarrow> real list \<Rightarrow> error + real list" where
  "np_add xs ys =
    (if length xs = length ys then Inr (map2 (+) xs ys)
     else if length xs = 1 then Inr (map (\<lambda>y. hd xs + y) ys)
     else if length ys = 1 then Inr (map (\<lambda>x. x + hd ys) xs)
     else Inl ValueError)"

text \<open>Python's \<^verbatim>\<open>+\<close>: two lists are concatenated; when an array takes part the sum is
  numpy's, a fresh writeable array.\<close>

fun py_add :: "pyseq \<Rightarrow> pyseq \<Rightarrow> error + pyseq" where
  "py_add (PyList a) (PyList b) = Inr (PyList (a @ b))"
| "py_add a b =
    (case np_add (vals a) (vals b) of Inl e \<Rightarrow> Inl e | Inr zs \<Rightarrow> Inr (NDArray True zs))"

text \<open>\<^verbatim>\<open>(v[2] if len(v) == 3 else [])\<close>\<close>

definition third :: "pyseq list \<Rightarrow> pyseq" where
  "third v = (if length v = 3 then v ! 2 else PyList [])"

text \<open>The loop over \<^verbatim>\<open>self.conditions.keys()\<close> that fills the new dictionary.\<close>

fun add_conditions :: "string list \<Rightarrow> conds \<Rightarrow> conds \<Rightarrow> error + conds" where
  "add_conditions [] sc oc = Inr []"
| "add_conditions (k # ks) sc oc =
    (case dict_get sc k of
       Inl e \<Rightarrow> Inl e
     | Inr sv \<Rightarrow>
       (case dict_get oc k of
          Inl e \<Rightarrow> Inl e
        | Inr ov \<Rightarrow>
          (case py_add (sv ! 0) (ov ! 0) of
             Inl e \<Rightarrow> Inl e
           | Inr a0 \<Rightarrow>
             (case py_add (sv ! 1) (ov ! 1) of
                Inl e \<Rightarrow> Inl e
              | Inr a1 \<Rightarrow>
                (case py_add (third sv) (third ov) of
                   Inl e \<Rightarrow> Inl e
                 | Inr a2 \<Rightarrow>
                   (case add_conditions ks sc oc of
                      Inl e \<Rightarrow> Inl e
                    | Inr cs \<Rightarrow> Inr ((k, [a0, a1, a2]) # cs)))))))"

definition Sample_add :: "Sample \<Rightarrow> Sample \<Rightarrow> error + Sample" where
  "Sample_add s other =
    (if sort (map fst (conditions s)) \<noteq> sort (map fst (conditions other))
     then Inl (AssertionError ''Canot add with unlike conditions'')
     else
       (case py_add (corr s) (corr other) of
          Inl e \<Rightarrow> Inl e
        | Inr c \<Rightarrow>
          (case py_add (err s) (err other) of
             Inl e \<Rightarrow> Inl e
           | Inr e' \<Rightarrow>
             (case add_conditions (map fst (conditions s)) (conditions s) (conditions other) of
                Inl e \<Rightarrow> Inl e
              | Inr cs \<Rightarrow> Sample_init c e' (non_decision s + non_decision other) cs))))"

subsection \<open>\<^verbatim>\<open>condition_names\<close>\<close>

definition condition_names :: "Sample \<Rightarrow> string list" where
  "condition_names s = map fst (conditions s)"

subsection \<open>\<^verbatim>\<open>from_numpy_array\<close>\<close>

text \<open>A two-dimensional array: \<^verbatim>\<open>shape1\<close> is \<^verbatim>\<open>data.shape[1]\<close>, the number of columns.\<close>

record ndarray2 =
  shape1 :: nat
  rows :: "real list list"

text \<open>\<^verbatim>\<open>astype(int)\<close> truncates towards zero.\<close>

definition trunc :: "real \<Rightarrow> real" where
  "trunc a = (if a < 0 then of_int \<lceil>a\<rceil> else of_int \<lfloor>a\<rfloor>)"

text \<open>The local function \<^verbatim>\<open>pt\<close>: an array of whole numbers becomes an integer array.\<close>

definition pt :: "real list \<Rightarrow> pyseq" where
  "pt x = NDArray True (if list_all (\<lambda>a. a = of_int (round a)) x then map trunc x else x)"

text \<open>\<^verbatim>\<open>data[c, j]\<close> and \<^verbatim>\<open>data[nc, j]\<close>, where \<^verbatim>\<open>c = data[:,1].astype(bool)\<close> and
  \<^verbatim>\<open>nc = (1-data[:,1]).astype(bool)\<close>.\<close>

definition col_c :: "ndarray2 \<Rightarrow> nat \<Rightarrow> real list" where
  "col_c data j = map (\<lambda>r. r ! j) (filter (\<lambda>r. r ! 1 \<noteq> 0) (rows data))"

definition col_nc :: "ndarray2 \<Rightarrow> nat \<Rightarrow> real list" where
  "col_nc data j = map (\<lambda>r. r ! j) (filter (\<lambda>r. 1 - r ! 1 \<noteq> 0) (rows data))"

text \<open>The dictionary comprehension over \<^verbatim>\<open>enumerate(column_names[2:])\<close>.\<close>

definition np_conditions :: "ndarray2 \<Rightarrow> string list \<Rightarrow> conds" where
  "np_conditions data column_names =
    foldl (\<lambda>d (i, k). dict_set d k [pt (col_c data (i + 2)), pt (col_nc data (i + 2)), PyList []])
      [] (enumerate 0 (drop 2 column_names))"

text \<open>
  The decorators come first: \<^verbatim>\<open>@accepts\<close> (a two-dimensional array, every row of
  \<^verbatim>\<open>shape1\<close> entries), the \<^verbatim>\<open>@requires\<close> lines, and \<^verbatim>\<open>@ensures\<close> on the result.
  \<^verbatim>\<open>all(data[:,0].astype("float") == data[:,0])\<close> is true of every real.
\<close>

definition from_numpy_array :: "ndarray2 \<Rightarrow> string list \<Rightarrow> error + Sample" where
  "from_numpy_array data column_names =
    (if \<not> list_all (\<lambda>r. length r = shape1 data) (rows data) then Inl AcceptsError
     else if \<not> 2 \<le> shape1 data then Inl RequiresError
     else if \<not> list_all (\<lambda>r. r ! 1 = 0 \<or> r ! 1 = 1) (rows data) then Inl RequiresError
     else if shape1 data - 2 \<noteq> length column_names then Inl RequiresError
     else
       (case Sample_init (pt (col_c data 0)) (pt (col_nc data 0)) 0
               (np_conditions data column_names) of
          Inl e \<Rightarrow> Inl e
        | Inr s \<Rightarrow>
            if length column_names = length (condition_names s) then Inr s
            else Inl EnsuresError))"

subsection \<open>\<^verbatim>\<open>subset\<close>\<close>

text \<open>
  The value of a keyword filter: a function (it has \<^verbatim>\<open>__call__\<close>), a container (it has
  \<^verbatim>\<open>__contains__\<close>), an object with both, or a number (neither).
\<close>

datatype pyobj =
    Function "real \<Rightarrow> bool"
  | Container "real list"
  | CallableContainer "real \<Rightarrow> bool" "real list"
  | Scalar real

fun has_call :: "pyobj \<Rightarrow> bool" where
  "has_call (Function f) = True"
| "has_call (CallableContainer f c) = True"
| "has_call v = False"

fun has_contains :: "pyobj \<Rightarrow> bool" where
  "has_contains (Container c) = True"
| "has_contains (CallableContainer f c) = True"
| "has_contains v = False"

text \<open>\<^verbatim>\<open>v(i)\<close>, \<^verbatim>\<open>i in v\<close> and \<^verbatim>\<open>i == v\<close> for a number \<^verbatim>\<open>i\<close>; a number equals neither a
  function nor a container.\<close>

fun call :: "pyobj \<Rightarrow> real \<Rightarrow> bool" where
  "call (Function f) i = f i"
| "call (CallableContainer f c) i = f i"
| "call v i = False"

fun contains :: "pyobj \<Rightarrow> real \<Rightarrow> bool" where
  "contains (Container c) i = (i \<in> set c)"
| "contains (CallableContainer f c) i = (i \<in> set c)"
| "contains v i = False"

fun eq_obj :: "pyobj \<Rightarrow> real \<Rightarrow> bool" where
  "eq_obj (Scalar x) i = (i = x)"
| "eq_obj v i = False"

text \<open>\<^verbatim>\<open>np.logical_and\<close> of a mask and a list of the same length.\<close>

definition logical_and :: "bool list \<Rightarrow> bool list \<Rightarrow> bool list" where
  "logical_and m bs = map2 (\<and>) m bs"

text \<open>
  The body of the loop for one partition: an \<^verbatim>\<open>if\<close> on \<^verbatim>\<open>__call__\<close>, then a second
  \<^verbatim>\<open>if\<close> on \<^verbatim>\<open>__contains__\<close> whose \<^verbatim>\<open>else\<close> compares with \<^verbatim>\<open>==\<close>.
\<close>

definition mask_step :: "pyobj \<Rightarrow> bool list \<Rightarrow> real list \<Rightarrow> bool list" where
  "mask_step v m0 xs =
    (let m1 = (if has_call v then logical_and m0 (map (call v) xs) else m0)
     in if has_contains v then logical_and m1 (map (contains v) xs)
        else logical_and m1 (map (eq_obj v) xs))"

text \<open>The same for the non-decision mask, which is \<^verbatim>\<open>[]\<close> when \<^verbatim>\<open>non_decision == 0\<close>;
  \<^verbatim>\<open>cv\<close> is the tuple \<^verbatim>\<open>self.conditions[k]\<close>.\<close>

definition mask_step_non :: "int \<Rightarrow> pyobj \<Rightarrow> bool list \<Rightarrow> pyseq list \<Rightarrow> bool list" where
  "mask_step_non nd v m0 cv =
    (let m1 = (if has_call v
               then (if nd = 0 then [] else logical_and m0 (map (call v) (vals (cv ! 2))))
               else m0)
     in if has_contains v
        then (if nd = 0 then [] else logical_and m1 (map (contains v) (vals (cv ! 2))))
        else (if nd = 0 then [] else logical_and m1 (map (eq_obj v) (vals (cv ! 2)))))"

fun subset_masks ::
  "Sample \<Rightarrow> (string \<times> pyobj) list \<Rightarrow> bool list \<times> bool list \<times> bool list
     \<Rightarrow> error + bool list \<times> bool list \<times> bool list" where
  "subset_masks s [] m = Inr m"
| "subset_masks s ((k, v) # kwargs) (mask_corr, mask_err, mask_non) =
    (case dict_get (conditions s) k of
       Inl e \<Rightarrow> Inl e
     | Inr cv \<Rightarrow>
         subset_masks s kwargs
           (mask_step v mask_corr (vals (cv ! 0)),
            mask_step v mask_err (vals (cv ! 1)),
            mask_step_non (non_decision s) v mask_non cv))"

text \<open>\<^verbatim>\<open>itertools.compress\<close>\<close>

definition compress :: "'a list \<Rightarrow> bool list \<Rightarrow> 'a list" where
  "compress xs sel = map fst (filter snd (zip xs sel))"

text \<open>The dictionary \<^verbatim>\<open>filtered_conditions\<close>: every entry is built with \<^verbatim>\<open>list(...)\<close>.\<close>

definition filtered_conditions ::
  "conds \<Rightarrow> bool list \<Rightarrow> bool list \<Rightarrow> bool list \<Rightarrow> conds" where
  "filtered_conditions cs mask_corr mask_err mask_non =
    map (\<lambda>(k, v). (k, [PyList (compress (vals (v ! 0)) mask_corr),
                        PyList (compress (vals (v ! 1)) mask_err),
                        (if length v = 3 then PyList (compress (vals (v ! 2)) mask_non)
                         else PyList [])])) cs"

definition Sample_subset :: "Sample \<Rightarrow> (string \<times> pyobj) list \<Rightarrow> error + Sample" where
  "Sample_subset s kwargs =
    (case subset_masks s kwargs
            (replicate (length (vals (corr s))) True,
             replicate (length (vals (err s))) True,
             replicate (nat (non_decision s)) True) of
       Inl e \<Rightarrow> Inl e
     | Inr (mask_corr, mask_err, mask_non) \<Rightarrow>
         Sample_init (NDArray True (compress (vals (corr s)) mask_corr))
                     (NDArray True (compress (vals (err s)) mask_err))
                     (int (length (filter id mask_non)))
                     (filtered_conditions (conditions s) mask_corr mask_err mask_non))"

subsection \<open>\<^verbatim>\<open>condition_combinations\<close>\<close>

text \<open>\<^verbatim>\<open>list(set(cs[c][0]).union(set(cs[c][1])))\<close>: the distinct values, in some order.\<close>

fun observed_values :: "conds \<Rightarrow> string list \<Rightarrow> error + real list list" where
  "observed_values cs [] = Inr []"
| "observed_values cs (c # names) =
    (case dict_get cs c of
       Inl e \<Rightarrow> Inl e
     | Inr v \<Rightarrow>
       (case observed_values cs names of
          Inl e \<Rightarrow> Inl e
        | Inr r \<Rightarrow> Inr (remdups (vals (v ! 0) @ vals (v ! 1)) # r)))"

text \<open>The loop over \<^verbatim>\<open>itertools.product(*conditions)\<close>.\<close>

fun combs_loop ::
  "Sample \<Rightarrow> string list \<Rightarrow> real list list \<Rightarrow> error + (string \<times> real) list list" where
  "combs_loop s names [] = Inr []"
| "combs_loop s names (p # ps) =
    (case Sample_subset s (zip names (map Scalar p)) of
       Inl e \<Rightarrow> Inl e
     | Inr sub \<Rightarrow>
       (case combs_loop s names ps of
          Inl e \<Rightarrow> Inl e
        | Inr combs \<Rightarrow> Inr (if len sub \<noteq> 0 then zip names p # combs else combs)))"

definition condition_combinations ::
  "Sample \<Rightarrow> string list option \<Rightarrow> error + (string \<times> real) list list" where
  "condition_combinations s required_conditions =
    (let names = (case required_conditions of
                    None \<Rightarrow> condition_names s
                  | Some req \<Rightarrow> filter (\<lambda>n. n \<in> set req) (condition_names s))
     in case observed_values (conditions s) names of
          Inl e \<Rightarrow> Inl e
        | Inr conditions' \<Rightarrow>
          (case combs_loop s names (product_lists conditions') of
             Inl e \<Rightarrow> Inl e
           | Inr combs \<Rightarrow> Inr (if length combs = 0 then [[]] else combs)))"

subsection \<open>\<^verbatim>\<open>t_domain\<close>\<close>

text \<open>
  A Python number is an \<^verbatim>\<open>int\<close> or a \<^verbatim>\<open>float\<close>; the quotient \<^verbatim>\<open>a/b\<close> of two numbers
  is always a \<^verbatim>\<open>float\<close>, and so is a \<^verbatim>\<open>float\<close> plus one.
\<close>

datatype pynum =
    PyInt int
  | PyFloat real

text \<open>
  \<^verbatim>\<open>num\<close> evenly spaced points, the first \<^verbatim>\<open>start\<close> and (for \<^verbatim>\<open>num > 1\<close>) the last
  \<^verbatim>\<open>stop\<close>.
\<close>

definition linspace :: "real \<Rightarrow> real \<Rightarrow> nat \<Rightarrow> real list" where
  "linspace start stop num =
    (if num = 1 then [start]
     else map (\<lambda>j. start + real j * ((stop - start) / real (num - 1))) [0..<num])"

text \<open>
  \<^verbatim>\<open>np.linspace(start, stop, num)\<close> takes the count \<^verbatim>\<open>num\<close> as an integer: a \<^verbatim>\<open>float\<close>
  count raises \<^verbatim>\<open>TypeError\<close> (numpy 1.18 and later; older releases truncated it with a
  deprecation warning, which is not modelled), a negative count \<^verbatim>\<open>ValueError\<close>.
\<close>

definition np_linspace :: "real \<Rightarrow> real \<Rightarrow> pynum \<Rightarrow> error + real list" where
  "np_linspace start stop num =
    (case num of
       PyFloat x \<Rightarrow> Inl TypeError
     | PyInt n \<Rightarrow> if n < 0 then Inl ValueError else Inr (linspace start stop (nat n)))"

text \<open>
  \<^verbatim>\<open>@accepts(dt=Positive, T_dur=Positive)\<close>, \<^verbatim>\<open>@requires('T_dur/dt < 1e5')\<close>, the body
  \<^verbatim>\<open>np.linspace(0, T_dur, T_dur/dt+1)\<close>, whose third argument is a \<^verbatim>\<open>float\<close>, and
  \<^verbatim>\<open>@returns(NDArray(d=1, t=Positive0))\<close> on the result.
\<close>

definition t_domain :: "real \<Rightarrow> real \<Rightarrow> error + real list" where
  "t_domain dt T_dur =
    (if \<not> (0 < dt \<and> 0 < T_dur) then Inl AcceptsError
     else if \<not> T_dur / dt < 100000 then Inl RequiresError
     else (case np_linspace 0 T_dur (PyFloat (T_dur / dt + 1)) of
             Inl e \<Rightarrow> Inl e
           | Inr ts \<Rightarrow> if list_all (\<lambda>t. 0 \<le> t) ts then Inr ts else Inl ReturnsError))"

section \<open>Notions used in the properties\<close>

text \<open>
  Item assignment \<^verbatim>\<open>a[j] = x\<close>, the in-place mutation that the read-only flag is meant
  to stop: numpy raises \<^verbatim>\<open>ValueError\<close> on an array whose \<^verbatim>\<open>flags.writeable\<close> is
  False; a list is always assignable.
\<close>

fun setitem :: "pyseq \<Rightarrow> nat \<Rightarrow> real \<Rightarrow> error + pyseq" where
  "setitem (NDArray w xs) j x =
    (if \<not> w then Inl ValueError
     else if j < length xs then Inr (NDArray w (xs[j := x])) else Inl IndexError)"
| "setitem (PyList xs) j x =
    (if j < length xs then Inr (PyList (xs[j := x])) else Inl IndexError)"

text \<open>The specification's immutability invariant: the two time arrays and every element
  of every condition tuple are read-only.\<close>

definition spec_all_readonly :: "Sample \<Rightarrow> bool" where
  "spec_all_readonly s =
    (readonly (corr s) \<and> readonly (err s) \<and>
     list_all (\<lambda>(k, v). list_all readonly v) (conditions s))"

text \<open>What the assertions of \<^verbatim>\<open>__init__\<close> establish for one condition tuple.\<close>

definition cond_ok :: "nat \<Rightarrow> nat \<Rightarrow> int \<Rightarrow> pyseq list \<Rightarrow> bool" where
  "cond_ok lc le nd v =
    ((length v = 2 \<or> length v = 3)
     \<and> is_ndarray (v ! 0) \<and> length (vals (v ! 0)) = lc
     \<and> is_ndarray (v ! 1) \<and> length (vals (v ! 1)) = le
     \<and> int (length (vals (third v))) = nd)"

text \<open>
  The specification's combined condition of \<^verbatim>\<open>add\<close>: correct and error arrays added
  element-wise, non-decision lists concatenated. \<^verbatim>\<open>w\<close> is the writeable flag of the two
  arrays.
\<close>

definition spec_added_condition :: "bool \<Rightarrow> pyseq list \<Rightarrow> pyseq list \<Rightarrow> pyseq list" where
  "spec_added_condition w sv ov =
    [NDArray w (map2 (+) (vals (sv ! 0)) (vals (ov ! 0))),
     NDArray w (map2 (+) (vals (sv ! 1)) (vals (ov ! 1))),
     PyList (vals (third sv) @ vals (third ov))]"

section \<open>Properties\<close>

subsection \<open>Length\<close>

text \<open>
  Claim C4. The length of a Sample is the number of correct times plus the number of error
  times plus the non-decision count; the Sample built from the correct times
  \<^verbatim>\<open>[.1,.2,.3]\<close>, the error times \<^verbatim>\<open>[.2,.3,.4]\<close> and no non-decision trial is accepted
  by the constructor and has length 6.
\<close>

theorem C4_length:
  "len s = int (length (vals (corr s))) + int (length (vals (err s))) + non_decision s
   \<and> Sample_init (NDArray True [1/10, 2/10, 3/10]) (NDArray True [2/10, 3/10, 4/10]) 0 []
       = Inr \<lparr>corr = NDArray False [1/10, 2/10, 3/10],
              err = NDArray False [2/10, 3/10, 4/10],
              non_decision = 0, conditions = []\<rparr>
   \<and> len \<lparr>corr = NDArray False [1/10, 2/10, 3/10],
           err = NDArray False [2/10, 3/10, 4/10],
           non_decision = 0, conditions = []\<rparr> = 6"
  by (simp add: len_def Sample_init_def)

subsection \<open>The empty Sample\<close>

text \<open>
  Claim C10. The constructor accepts the Sample with no correct time, no error time and
  non-decision count 0; its length is 0, and \<^verbatim>\<open>prob_correct\<close>, \<^verbatim>\<open>prob_error\<close> and
  \<^verbatim>\<open>prob_undecided\<close> raise \<^verbatim>\<open>ZeroDivisionError\<close> on it.
\<close>

theorem C10_empty_sample_division_by_zero:
  "Sample_init (NDArray True []) (NDArray True []) 0 []
       = Inr \<lparr>corr = NDArray False [], err = NDArray False [],
              non_decision = 0, conditions = []\<rparr>
   \<and> len \<lparr>corr = NDArray False [], err = NDArray False [],
           non_decision = 0, conditions = []\<rparr> = 0
   \<and> prob_correct \<lparr>corr = NDArray False [], err = NDArray False [],
           non_decision = 0, conditions = []\<rparr> = Inl ZeroDivisionError
   \<and> prob_error \<lparr>corr = NDArray False [], err = NDArray False [],
           non_decision = 0, conditions = []\<rparr> = Inl ZeroDivisionError
   \<and> prob_undecided \<lparr>corr = NDArray False [], err = NDArray False [],
           non_decision = 0, conditions = []\<rparr> = Inl ZeroDivisionError"
  by (simp add: len_def Sample_init_def prob_correct_def prob_error_def prob_undecided_def
      py_div_def returns_Range01_def)

subsection \<open>Iteration\<close>

text \<open>
  Claim C2. \<^verbatim>\<open>items(correct)\<close> should yield one pair per trial of the chosen partition and
  then stop. \<^verbatim>\<open>next\<close> compares \<^verbatim>\<open>self.i\<close> with the length of the whole Sample, not of
  the partition: on the Sample with one correct and one error trial the first call on the
  correct partition returns the pair of the correct trial, and the second call raises
  \<^verbatim>\<open>IndexError\<close> where \<^verbatim>\<open>StopIteration\<close> is due.
\<close>

theorem C2_items_IndexError:
  "Sample_init (NDArray True [1/10]) (NDArray True [2/10]) 0 []
       = Inr \<lparr>corr = NDArray False [1/10], err = NDArray False [2/10],
              non_decision = 0, conditions = []\<rparr>
   \<and> fst (Iter_next (items \<lparr>corr = NDArray False [1/10], err = NDArray False [2/10],
                             non_decision = 0, conditions = []\<rparr> True))
       = Inr (1/10, [])
   \<and> fst (Iter_next (snd (Iter_next
             (items \<lparr>corr = NDArray False [1/10], err = NDArray False [2/10],
                      non_decision = 0, conditions = []\<rparr> True))))
       = Inl IndexError"
  by (simp add: Sample_init_def Iter_next_def items_def len_def getitem_def Let_def)

subsection \<open>Construction from a table\<close>

text \<open>
  Claim C3. For a table with \<^verbatim>\<open>m\<close> columns and \<^verbatim>\<open>m - 2\<close> column names the result should
  have \<^verbatim>\<open>m - 2\<close> conditions. The function skips the first two names
  (\<^verbatim>\<open>column_names[2:]\<close>): on a table of three columns and the one name \<^verbatim>\<open>color\<close> it
  builds a Sample without conditions, which its own \<^verbatim>\<open>@ensures\<close> rejects.
\<close>

theorem C3_from_numpy_array_drops_names:
  "from_numpy_array \<lparr>shape1 = 3, rows = [[1/2, 1, 7], [3/10, 0, 8]]\<rparr> [''color'']
     = Inl EnsuresError"
  by (simp add: from_numpy_array_def Sample_init_def np_conditions_def pt_def col_c_def
      col_nc_def condition_names_def enumerate_eq_zip)

subsection \<open>Subsetting\<close>

text \<open>
  Claim C1. \<^verbatim>\<open>subset(k=f)\<close> with a predicate \<^verbatim>\<open>f\<close> should keep exactly the trials whose
  value of \<^verbatim>\<open>k\<close> satisfies \<^verbatim>\<open>f\<close>. On the Sample with correct times \<^verbatim>\<open>[.1,.2]\<close>, error
  time \<^verbatim>\<open>[.3]\<close> and \<^verbatim>\<open>k = ([1,2],[1])\<close>, the filter \<^verbatim>\<open>f(x) = (x == 1)\<close> gives masks that
  are False everywhere (after the call branch the \<^verbatim>\<open>else\<close> of the second \<^verbatim>\<open>if\<close> also
  compares every value with the function itself), and the call ends in the
  \<^verbatim>\<open>AssertionError\<close> of the constructor, which is handed plain lists as condition values.
\<close>

theorem C1_subset_predicate_fails:
  "Sample_init (NDArray True [1/10, 2/10]) (NDArray True [3/10]) 0
      [(''k'', [NDArray True [1, 2], NDArray True [1]])]
     = Inr \<lparr>corr = NDArray False [1/10, 2/10], err = NDArray False [3/10],
            non_decision = 0,
            conditions = [(''k'', [NDArray False [1, 2], NDArray False [1]])]\<rparr>
   \<and> subset_masks \<lparr>corr = NDArray False [1/10, 2/10], err = NDArray False [3/10],
                        non_decision = 0,
                        conditions = [(''k'', [NDArray False [1, 2], NDArray False [1]])]\<rparr>
       [(''k'', Function (\<lambda>x. x = 1))] ([True, True], [True], [])
     = Inr ([False, False], [False], [])
   \<and> Sample_subset \<lparr>corr = NDArray False [1/10, 2/10], err = NDArray False [3/10],
                         non_decision = 0,
                         conditions = [(''k'', [NDArray False [1, 2], NDArray False [1]])]\<rparr>
       [(''k'', Function (\<lambda>x. x = 1))]
     = Inl (AssertionError [])"
  by (simp add: Sample_init_def Sample_subset_def dict_get_def mask_step_def
      mask_step_non_def logical_and_def filtered_conditions_def compress_def)

text \<open>
  Claim C9. \<^verbatim>\<open>subset()\<close> without filters should return a Sample equal to the original.
  On a Sample that has a condition the call raises the \<^verbatim>\<open>AssertionError\<close> of the
  constructor instead: \<^verbatim>\<open>filtered_conditions\<close> holds lists, the constructor asks for
  arrays.
\<close>

theorem C9_subset_no_filter_fails:
  "Sample_subset \<lparr>corr = NDArray False [1/10, 2/10], err = NDArray False [3/10],
                  non_decision = 0,
                  conditions = [(''k'', [NDArray False [1, 2], NDArray False [1]])]\<rparr> []
     = Inl (AssertionError [])"
  by (simp add: Sample_subset_def Sample_init_def filtered_conditions_def compress_def)

subsection \<open>Condition combinations\<close>

text \<open>
  Claim C7. \<^verbatim>\<open>condition_combinations()\<close> should return the combinations of observed
  values whose subset is not empty, here \<^verbatim>\<open>k = 1\<close> and \<^verbatim>\<open>k = 2\<close>. It calls \<^verbatim>\<open>subset\<close>
  for the first combination, and the error of \<^verbatim>\<open>subset\<close> escapes.
\<close>

theorem C7_condition_combinations_fails:
  "condition_combinations \<lparr>corr = NDArray False [1/10, 2/10], err = NDArray False [3/10],
                           non_decision = 0,
                           conditions = [(''k'', [NDArray False [1, 2], NDArray False [1]])]\<rparr> None
     = Inl (AssertionError [])"
  by (simp add: condition_combinations_def condition_names_def dict_get_def Sample_subset_def
      mask_step_def mask_step_non_def logical_and_def Sample_init_def filtered_conditions_def
      compress_def)

subsection \<open>Read-only arrays\<close>

lemma setitem_readonly: "readonly a \<Longrightarrow> setitem a j x = Inl ValueError"
  by (cases a) auto

lemma init_conditions_frozen:
  "init_conditions lc le nd kw = Inr cs \<Longrightarrow>
     list_all (\<lambda>(k, v). readonly (v ! 0) \<and> readonly (v ! 1)) cs
     \<and> map (\<lambda>(k, v). (k, drop 2 v)) cs = map (\<lambda>(k, v). (k, drop 2 v)) kw"
proof (induction kw arbitrary: cs)
  case Nil
  then show ?case by simp
next
  case (Cons p kw)
  obtain k v where p: "p = (k, v)" by (cases p)
  from Cons.prems p obtain cs' where
    rest: "init_conditions lc le nd kw = Inr cs'" and
    cs: "\<exists>v0 v1. cs = (k, NDArray False v0 # NDArray False v1 # drop 2 v) # cs'"
    by (auto split: if_splits pyseq.splits sum.splits)
  from Cons.IH[OF rest] cs show ?case by (auto simp: p)
qed

text \<open>
  Claim C6, as stated: after construction every stored array, the third array of a
  condition tuple included, is read-only. The constructor marks \<^verbatim>\<open>v[0]\<close> and \<^verbatim>\<open>v[1]\<close>
  only: a Sample built with a writeable array as third element keeps it writeable, and
  an assignment into it succeeds.
\<close>

theorem C6_third_array_writeable:
  "Sample_init (NDArray True [1/10]) (NDArray True []) 1
      [(''k'', [NDArray True [1], NDArray True [], NDArray True [5]])]
    = Inr \<lparr>corr = NDArray False [1/10], err = NDArray False [], non_decision = 1,
           conditions = [(''k'', [NDArray False [1], NDArray False [], NDArray True [5]])]\<rparr>
   \<and> \<not> spec_all_readonly
         \<lparr>corr = NDArray False [1/10], err = NDArray False [], non_decision = 1,
           conditions = [(''k'', [NDArray False [1], NDArray False [], NDArray True [5]])]\<rparr>
   \<and> setitem (NDArray True [5]) 0 9 = Inr (NDArray True [9])"
  by (simp add: Sample_init_def spec_all_readonly_def)

text \<open>
  Claim C6, amended: after construction the correct times, the error times and the first
  two arrays of every condition tuple are read-only, so that an assignment into any of
  them raises; the further elements of a tuple (the non-decision values) are stored as
  they were passed.
\<close>

theorem C6_times_and_first_two_readonly:
  assumes "Sample_init c e nd kw = Inr s"
  shows "readonly (corr s) \<and> readonly (err s)
     \<and> list_all (\<lambda>(k, v). readonly (v ! 0) \<and> readonly (v ! 1)) (conditions s)
     \<and> map (\<lambda>(k, v). (k, drop 2 v)) (conditions s) = map (\<lambda>(k, v). (k, drop 2 v)) kw
     \<and> setitem (corr s) j x = Inl ValueError \<and> setitem (err s) j x = Inl ValueError
     \<and> list_all (\<lambda>(k, v). setitem (v ! 0) j x = Inl ValueError
                          \<and> setitem (v ! 1) j x = Inl ValueError) (conditions s)"
proof -
  from assms obtain c' e' cs where
    ic: "init_conditions (length c') (length e') nd kw = Inr cs" and
    s: "s = \<lparr>corr = NDArray False c', err = NDArray False e', non_decision = nd, conditions = cs\<rparr>"
    by (auto simp: Sample_init_def split: pyseq.splits if_splits sum.splits)
  from init_conditions_frozen[OF ic] have
    fr: "list_all (\<lambda>(k, v). readonly (v ! 0) \<and> readonly (v ! 1)) cs" and
    th: "map (\<lambda>(k, v). (k, drop 2 v)) cs = map (\<lambda>(k, v). (k, drop 2 v)) kw" by auto
  from fr have "list_all (\<lambda>(k, v). setitem (v ! 0) j x = Inl ValueError
                          \<and> setitem (v ! 1) j x = Inl ValueError) cs"
    by (auto simp: list_all_iff setitem_readonly)
  with fr th show ?thesis by (simp add: s)
qed

text \<open>Witness of the amended claim C6: a Sample with one condition of three arrays; the
  assignments into its correct times and into the first array of the condition raise.\<close>

theorem C6_times_and_first_two_readonly_witness:
  "Sample_init (NDArray True [1/10]) (NDArray True []) 1
      [(''k'', [NDArray True [1], NDArray True [], NDArray True [5]])]
    = Inr \<lparr>corr = NDArray False [1/10], err = NDArray False [], non_decision = 1,
           conditions = [(''k'', [NDArray False [1], NDArray False [], NDArray True [5]])]\<rparr>
   \<and> setitem (NDArray False [1/10]) 0 9 = Inl ValueError
   \<and> setitem (NDArray False [1]) 0 9 = Inl ValueError"
proof -
  have h: "Sample_init (NDArray True [1/10]) (NDArray True []) 1
      [(''k'', [NDArray True [1], NDArray True [], NDArray True [5]])]
    = Inr \<lparr>corr = NDArray False [1/10], err = NDArray False [], non_decision = 1,
           conditions = [(''k'', [NDArray False [1], NDArray False [], NDArray True [5]])]\<rparr>"
    by (simp add: Sample_init_def)
  from C6_times_and_first_two_readonly[OF h, of 0 9] h show ?thesis by simp
qed

subsection \<open>The time domain\<close>

text \<open>
  Claim C8. \<^verbatim>\<open>time_domain(dt, duration)\<close> should return the evenly spaced points from 0 to
  the duration, 201 of them for \<^verbatim>\<open>dt = .01\<close> and duration 2. \<^verbatim>\<open>t_domain\<close> hands the
  \<^verbatim>\<open>float\<close> \<^verbatim>\<open>T_dur/dt+1\<close> to \<^verbatim>\<open>np.linspace\<close> as the number of points (its sibling
  \<^verbatim>\<open>pdf_corr\<close> writes \<^verbatim>\<open>int(T_dur/dt)+1\<close>), and the call raises \<^verbatim>\<open>TypeError\<close>: for
  the default arguments, and for \<^verbatim>\<open>dt = .5\<close> with duration \<^verbatim>\<open>.75\<close>.
\<close>

theorem C8_t_domain_TypeError:
  "t_domain (1/100) 2 = Inl TypeError \<and> t_domain (1/2) (3/4) = Inl TypeError"
  by (simp add: t_domain_def np_linspace_def)

subsection \<open>Addition\<close>

lemma init_conditions_ok:
  "init_conditions lc le nd kw = Inr cs \<Longrightarrow>
     map fst cs = map fst kw \<and> list_all (\<lambda>(k, v). cond_ok lc le nd v) cs"
proof (induction kw arbitrary: cs)
  case Nil
  then show ?case by simp
next
  case (Cons p kw)
  obtain k v where p: "p = (k, v)" by (cases p)
  from Cons.prems p obtain cs' v0 v1 where
    rest: "init_conditions lc le nd kw = Inr cs'" and
    cs: "cs = (k, NDArray False v0 # NDArray False v1 # drop 2 v) # cs'" and
    lv: "length v = 2 \<or> length v = 3" and
    l0: "length v0 = lc" and l1: "length v1 = le" and
    l2: "length v = 3 \<Longrightarrow> int (length (vals (v ! 2))) = nd" and
    l3: "length v \<noteq> 3 \<Longrightarrow> nd = 0"
    by (auto split: if_splits pyseq.splits sum.splits)
  have "cond_ok lc le nd (NDArray False v0 # NDArray False v1 # drop 2 v)"
  proof (cases "length v = 3")
    case True
    then have "drop 2 v = [v ! 2]"
      by (metis Cons_nth_drop_Suc One_nat_def Suc_1 drop_all lessI numeral_3_eq_3 order_refl)
    with True l0 l1 l2 show ?thesis by (simp add: cond_ok_def third_def)
  next
    case False
    with lv have "length v = 2" by simp
    then have "drop 2 v = []" by simp
    with False l0 l1 l3 show ?thesis by (simp add: cond_ok_def third_def)
  qed
  with Cons.IH[OF rest] cs p show ?case by simp
qed

lemma Sample_init_ok:
  assumes "Sample_init c e nd kw = Inr s"
  shows "is_ndarray (corr s) \<and> is_ndarray (err s)
    \<and> 0 \<le> non_decision s
    \<and> map fst (conditions s) = map fst kw
    \<and> list_all (\<lambda>(k, v). cond_ok (length (vals (corr s))) (length (vals (err s)))
                              (non_decision s) v) (conditions s)"
proof -
  from assms obtain c' e' cs where
    ic: "init_conditions (length c') (length e') nd kw = Inr cs" and
    s: "s = \<lparr>corr = NDArray False c', err = NDArray False e', non_decision = nd, conditions = cs\<rparr>" and
    nn: "0 \<le> nd"
    by (auto simp: Sample_init_def split: pyseq.splits if_splits sum.splits)
  from init_conditions_ok[OF ic] nn show ?thesis by (simp add: s)
qed

lemma py_add_error: "py_add a b = Inl e \<Longrightarrow> e = ValueError"
  by (cases a; cases b) (auto simp: np_add_def split: if_splits)

lemma add_conditions_error:
  "add_conditions ks sc oc = Inl e \<Longrightarrow> e = KeyError \<or> e = ValueError"
proof (induction ks)
  case Nil
  then show ?case by simp
next
  case (Cons k ks)
  then show ?case
    by (auto simp: dict_get_def split: option.splits sum.splits dest: py_add_error)
qed

lemma init_conditions_error:
  "init_conditions lc le nd kw = Inl e \<Longrightarrow> e = AssertionError []"
proof (induction kw)
  case Nil
  then show ?case by simp
next
  case (Cons p kw)
  obtain k v where p: "p = (k, v)" by (cases p)
  from Cons show ?case unfolding p
    by (auto split: if_splits pyseq.splits sum.splits)
qed

lemma Sample_init_error:
  "Sample_init c e nd kw = Inl x \<Longrightarrow> x \<noteq> AssertionError ''Canot add with unlike conditions''"
  by (auto simp: Sample_init_def split: pyseq.splits if_splits sum.splits
      dest: init_conditions_error)

lemma Sample_add_unlike:
  "Sample_add s t = Inl (AssertionError ''Canot add with unlike conditions'')
    \<longleftrightarrow> sort (map fst (conditions s)) \<noteq> sort (map fst (conditions t))"
  by (auto simp: Sample_add_def split: sum.splits
      dest: py_add_error add_conditions_error Sample_init_error)

lemma sort_eq_iff_set_eq:
  fixes xs ys :: "string list"
  assumes "distinct xs" "distinct ys"
  shows "sort xs = sort ys \<longleftrightarrow> set xs = set ys"
proof
  assume "sort xs = sort ys"
  then have "set (sort xs) = set (sort ys)" by simp
  then show "set xs = set ys" by simp
next
  assume "set xs = set ys"
  then show "sort xs = sort ys"
    using assms by (intro sorted_distinct_set_unique) simp_all
qed


lemma py_add_arrays:
  "is_ndarray a \<Longrightarrow> is_ndarray b \<Longrightarrow> length (vals a) = length (vals b) \<Longrightarrow>
     py_add a b = Inr (NDArray True (map2 (+) (vals a) (vals b)))"
  by (cases a; cases b) (simp_all add: np_add_def)

lemma py_add_lists:
  "\<not> is_ndarray a \<Longrightarrow> \<not> is_ndarray b \<Longrightarrow> py_add a b = Inr (PyList (vals a @ vals b))"
  by (cases a; cases b) simp_all

lemma add_conditions_ok:
  assumes "\<And>k. k \<in> set ks \<Longrightarrow>
      \<exists>sv ov. map_of sc k = Some sv \<and> map_of oc k = Some ov
        \<and> cond_ok lc le n1 sv \<and> cond_ok lc le n2 ov
        \<and> \<not> is_ndarray (third sv) \<and> \<not> is_ndarray (third ov)"
  shows "add_conditions ks sc oc =
     Inr (map (\<lambda>k. (k, spec_added_condition True (the (map_of sc k)) (the (map_of oc k)))) ks)"
  using assms
proof (induction ks)
  case Nil
  then show ?case by simp
next
  case (Cons k ks)
  from Cons.prems[of k] obtain sv ov where
    sv: "map_of sc k = Some sv" and ov: "map_of oc k = Some ov" and
    oks: "cond_ok lc le n1 sv" and oko: "cond_ok lc le n2 ov" and
    ls: "\<not> is_ndarray (third sv)" and lo: "\<not> is_ndarray (third ov)"
    by auto
  have a0: "py_add (sv ! 0) (ov ! 0) = Inr (NDArray True (map2 (+) (vals (sv ! 0)) (vals (ov ! 0))))"
    using oks oko by (intro py_add_arrays) (simp_all add: cond_ok_def)
  have a1: "py_add (sv ! 1) (ov ! 1) = Inr (NDArray True (map2 (+) (vals (sv ! 1)) (vals (ov ! 1))))"
    using oks oko by (intro py_add_arrays) (simp_all add: cond_ok_def)
  have a2: "py_add (third sv) (third ov) = Inr (PyList (vals (third sv) @ vals (third ov)))"
    using ls lo by (rule py_add_lists)
  have rest: "add_conditions ks sc oc =
     Inr (map (\<lambda>k. (k, spec_added_condition True (the (map_of sc k)) (the (map_of oc k)))) ks)"
    by (rule Cons.IH) (use Cons.prems in auto)
  from a0 a1 a2 rest show ?case
    by (simp add: dict_get_def sv ov spec_added_condition_def)
qed

lemma init_added:
  assumes "\<And>k. k \<in> set ks \<Longrightarrow> cond_ok lc le n1 (f k) \<and> cond_ok lc le n2 (g k)"
  shows "init_conditions lc le (n1 + n2) (map (\<lambda>k. (k, spec_added_condition True (f k) (g k))) ks)
     = Inr (map (\<lambda>k. (k, spec_added_condition False (f k) (g k))) ks)"
  using assms
proof (induction ks)
  case Nil
  then show ?case by simp
next
  case (Cons k ks)
  have ok: "cond_ok lc le n1 (f k)" "cond_ok lc le n2 (g k)" using Cons.prems[of k] by auto
  have rest: "init_conditions lc le (n1 + n2) (map (\<lambda>k. (k, spec_added_condition True (f k) (g k))) ks)
     = Inr (map (\<lambda>k. (k, spec_added_condition False (f k) (g k))) ks)"
    by (rule Cons.IH) (use Cons.prems in auto)
  have d: "drop 2 [a, b, c] = [c]" for a b c :: pyseq
    by (simp add: numeral_2_eq_2)
  from ok rest[unfolded spec_added_condition_def] show ?case
    by (simp add: spec_added_condition_def cond_ok_def d)
qed

lemma map_keys_eq:
  "distinct (map fst sc) \<Longrightarrow>
     map (\<lambda>k. (k, F k (the (map_of sc k)))) (map fst sc) = map (\<lambda>(k, sv). (k, F k sv)) sc"
proof -
  assume d: "distinct (map fst sc)"
  have "the (map_of sc k) = sv" if "(k, sv) \<in> set sc" for k sv
    using d that by simp
  then show ?thesis by (auto simp: comp_def)
qed


lemma conds_lookup:
  assumes "list_all (\<lambda>(k, v). P v) cs" "k \<in> set (map fst cs)"
  shows "\<exists>v. map_of cs k = Some v \<and> P v"
proof -
  from assms(2) have "map_of cs k \<noteq> None" by (simp add: map_of_eq_None_iff)
  then obtain v where v: "map_of cs k = Some v" by auto
  then have "(k, v) \<in> set cs" by (rule map_of_SomeD)
  with assms(1) have "P v" by (auto simp: list_all_iff)
  with v show ?thesis by simp
qed


text \<open>
  Claim C5, as stated: for every pair of Samples with the same condition names (and time
  arrays of equal lengths) \<^verbatim>\<open>add\<close> returns the combined Sample. When the non-decision
  values of a condition are arrays, \<^verbatim>\<open>+\<close> adds them element-wise instead of joining
  them: the sum has one element where the new non-decision count is 2, and the
  constructor's assertion \<^verbatim>\<open>len(v[2]) == non_decision\<close> fails.
\<close>

theorem C5_add_array_thirds_fail:
  "Sample_init (NDArray True [1/10]) (NDArray True []) 1
      [(''k'', [NDArray True [1], NDArray True [], NDArray True [5]])]
    = Inr \<lparr>corr = NDArray False [1/10], err = NDArray False [], non_decision = 1,
           conditions = [(''k'', [NDArray False [1], NDArray False [], NDArray True [5]])]\<rparr>
   \<and> Sample_init (NDArray True [2/10]) (NDArray True []) 1
      [(''k'', [NDArray True [3], NDArray True [], NDArray True [6]])]
    = Inr \<lparr>corr = NDArray False [2/10], err = NDArray False [], non_decision = 1,
           conditions = [(''k'', [NDArray False [3], NDArray False [], NDArray True [6]])]\<rparr>
   \<and> Sample_add
        \<lparr>corr = NDArray False [1/10], err = NDArray False [], non_decision = 1,
          conditions = [(''k'', [NDArray False [1], NDArray False [], NDArray True [5]])]\<rparr>
        \<lparr>corr = NDArray False [2/10], err = NDArray False [], non_decision = 1,
          conditions = [(''k'', [NDArray False [3], NDArray False [], NDArray True [6]])]\<rparr>
    = Inl (AssertionError [])"
  by (simp add: Sample_init_def Sample_add_def dict_get_def np_add_def third_def)

text \<open>
  Claim C5, amended. For two Samples made by the constructor (from keyword dictionaries,
  whose keys are distinct), \<^verbatim>\<open>add\<close> fails with the assertion
  \<^verbatim>\<open>Canot add with unlike conditions\<close> exactly when the sets of condition names differ.
  When the sets are equal, the time arrays of the operands have equal lengths and the
  non-decision values of every condition are lists (or absent), the result is the
  constructor applied to the element-wise sums of the correct and error times, the sum of
  the non-decision counts and, for every condition, the element-wise sums of its correct
  and error arrays and the concatenation of its non-decision lists; the constructor
  accepts these and returns that Sample.
\<close>

theorem C5_add:
  assumes s: "Sample_init c1 e1 n1 kw1 = Inr s" and d1: "distinct (map fst kw1)"
      and t: "Sample_init c2 e2 n2 kw2 = Inr t" and d2: "distinct (map fst kw2)"
  shows "(Sample_add s t = Inl (AssertionError ''Canot add with unlike conditions'')
           \<longleftrightarrow> set (condition_names s) \<noteq> set (condition_names t))
     \<and> (set (condition_names s) = set (condition_names t)
         \<and> length (vals (corr s)) = length (vals (corr t))
         \<and> length (vals (err s)) = length (vals (err t))
         \<and> list_all (\<lambda>(k, v). \<not> is_ndarray (third v)) (conditions s)
         \<and> list_all (\<lambda>(k, v). \<not> is_ndarray (third v)) (conditions t)
        \<longrightarrow> Sample_add s t =
              Sample_init (NDArray True (map2 (+) (vals (corr s)) (vals (corr t))))
                          (NDArray True (map2 (+) (vals (err s)) (vals (err t))))
                          (non_decision s + non_decision t)
                          (map (\<lambda>(k, sv). (k, spec_added_condition True sv (the (map_of (conditions t) k))))
                               (conditions s))
          \<and> Sample_add s t =
              Inr \<lparr>corr = NDArray False (map2 (+) (vals (corr s)) (vals (corr t))),
                   err = NDArray False (map2 (+) (vals (err s)) (vals (err t))),
                   non_decision = non_decision s + non_decision t,
                   conditions =
                     map (\<lambda>(k, sv). (k, spec_added_condition False sv (the (map_of (conditions t) k))))
                         (conditions s)\<rparr>)"
proof (intro conjI impI)
  note oks = Sample_init_ok[OF s] and okt = Sample_init_ok[OF t]
  from oks d1 have ds: "distinct (map fst (conditions s))" by simp
  from okt d2 have dt: "distinct (map fst (conditions t))" by simp
  show "Sample_add s t = Inl (AssertionError ''Canot add with unlike conditions'')
           \<longleftrightarrow> set (condition_names s) \<noteq> set (condition_names t)"
    unfolding Sample_add_unlike condition_names_def
    using sort_eq_iff_set_eq[OF ds dt] by simp
  assume h: "set (condition_names s) = set (condition_names t)
         \<and> length (vals (corr s)) = length (vals (corr t))
         \<and> length (vals (err s)) = length (vals (err t))
         \<and> list_all (\<lambda>(k, v). \<not> is_ndarray (third v)) (conditions s)
         \<and> list_all (\<lambda>(k, v). \<not> is_ndarray (third v)) (conditions t)"
  define lc where "lc = length (vals (corr s))"
  define le where "le = length (vals (err s))"
  define sc where "sc = conditions s"
  define oc where "oc = conditions t"
  define f where "f = (\<lambda>k. the (map_of sc k))"
  define g where "g = (\<lambda>k. the (map_of oc k))"
  from h have names: "set (map fst sc) = set (map fst oc)"
    by (simp add: condition_names_def sc_def oc_def)
  from h have lct: "length (vals (corr t)) = lc" and let': "length (vals (err t)) = le"
    by (simp_all add: lc_def le_def)
  have Ps: "list_all (\<lambda>(k, v). cond_ok lc le (non_decision s) v \<and> \<not> is_ndarray (third v)) sc"
    using oks h by (auto simp: list_all_iff lc_def le_def sc_def)
  have Pt: "list_all (\<lambda>(k, v). cond_ok lc le (non_decision t) v \<and> \<not> is_ndarray (third v)) oc"
    using okt h lct let' by (auto simp: list_all_iff oc_def)
  have each: "\<exists>sv ov. map_of sc k = Some sv \<and> map_of oc k = Some ov
        \<and> cond_ok lc le (non_decision s) sv \<and> cond_ok lc le (non_decision t) ov
        \<and> \<not> is_ndarray (third sv) \<and> \<not> is_ndarray (third ov)"
    if "k \<in> set (map fst sc)" for k
  proof -
    from conds_lookup[OF Ps that] obtain sv where
      "map_of sc k = Some sv" "cond_ok lc le (non_decision s) sv" "\<not> is_ndarray (third sv)"
      by auto
    moreover from that names have "k \<in> set (map fst oc)" by simp
    from conds_lookup[OF Pt this] obtain ov where
      "map_of oc k = Some ov" "cond_ok lc le (non_decision t) ov" "\<not> is_ndarray (third ov)"
      by auto
    ultimately show ?thesis by blast
  qed
  have fg: "cond_ok lc le (non_decision s) (f k) \<and> cond_ok lc le (non_decision t) (g k)"
    if "k \<in> set (map fst sc)" for k
    using each[OF that] by (auto simp: f_def g_def)
  have ac: "add_conditions (map fst sc) sc oc
      = Inr (map (\<lambda>k. (k, spec_added_condition True (f k) (g k))) (map fst sc))"
    unfolding f_def g_def by (rule add_conditions_ok) (rule each)
  have ic: "init_conditions lc le (non_decision s + non_decision t)
      (map (\<lambda>k. (k, spec_added_condition True (f k) (g k))) (map fst sc))
      = Inr (map (\<lambda>k. (k, spec_added_condition False (f k) (g k))) (map fst sc))"
    by (rule init_added) (rule fg)
  have keys: "map (\<lambda>k. (k, spec_added_condition w (f k) (g k))) (map fst sc)
      = map (\<lambda>(k, sv). (k, spec_added_condition w sv (the (map_of oc k)))) sc" for w
    unfolding f_def g_def
    using map_keys_eq[of sc "\<lambda>k sv. spec_added_condition w sv (the (map_of oc k))"] ds
    by (simp add: sc_def)
  have ac': "add_conditions (map fst sc) sc oc
      = Inr (map (\<lambda>(k, sv). (k, spec_added_condition True sv (the (map_of oc k)))) sc)"
    using ac by (simp only: keys)
  have ic': "init_conditions lc le (non_decision s + non_decision t)
      (map (\<lambda>(k, sv). (k, spec_added_condition True sv (the (map_of oc k)))) sc)
      = Inr (map (\<lambda>(k, sv). (k, spec_added_condition False sv (the (map_of oc k)))) sc)"
    using ic by (simp only: keys)
  have pc: "py_add (corr s) (corr t) = Inr (NDArray True (map2 (+) (vals (corr s)) (vals (corr t))))"
    using oks okt h by (intro py_add_arrays) simp_all
  have pe: "py_add (err s) (err t) = Inr (NDArray True (map2 (+) (vals (err s)) (vals (err t))))"
    using oks okt h by (intro py_add_arrays) simp_all
  have srt: "sort (map fst sc) = sort (map fst oc)"
    using sort_eq_iff_set_eq[OF ds dt] names by (simp add: sc_def oc_def)
  show eq1: "Sample_add s t =
              Sample_init (NDArray True (map2 (+) (vals (corr s)) (vals (corr t))))
                          (NDArray True (map2 (+) (vals (err s)) (vals (err t))))
                          (non_decision s + non_decision t)
                          (map (\<lambda>(k, sv). (k, spec_added_condition True sv (the (map_of (conditions t) k))))
                               (conditions s))"
    using srt pc pe ac' unfolding sc_def oc_def by (simp add: Sample_add_def)
  have nn: "\<not> non_decision s + non_decision t < 0" using oks okt by simp
  have l1: "length (map2 (+) (vals (corr s)) (vals (corr t))) = lc"
    using lct by (simp add: lc_def)
  have l2: "length (map2 (+) (vals (err s)) (vals (err t))) = le"
    using let' by (simp add: le_def)
  show "Sample_add s t =
              Inr \<lparr>corr = NDArray False (map2 (+) (vals (corr s)) (vals (corr t))),
                   err = NDArray False (map2 (+) (vals (err s)) (vals (err t))),
                   non_decision = non_decision s + non_decision t,
                   conditions =
                     map (\<lambda>(k, sv). (k, spec_added_condition False sv (the (map_of (conditions t) k))))
                         (conditions s)\<rparr>"
    unfolding eq1 Sample_init_def
    using nn l1 l2 ic' unfolding sc_def oc_def
    by simp
qed



text \<open>Witness of the amended claim C5: a Sample with one three-element condition added to a Sample
  with the same condition name, and to a Sample without conditions.\<close>

theorem C5_add_witness:
  "Sample_add
      \<lparr>corr = NDArray False [1/10, 2/10], err = NDArray False [3/10], non_decision = 1,
        conditions = [(''a'', [NDArray False [1, 2], NDArray False [3], PyList [7]])]\<rparr>
      \<lparr>corr = NDArray False [1, 1], err = NDArray False [2], non_decision = 0,
        conditions = [(''a'', [NDArray False [10, 20], NDArray False [30]])]\<rparr>
    = Inr \<lparr>corr = NDArray False [11/10, 12/10], err = NDArray False [23/10], non_decision = 1,
        conditions = [(''a'', [NDArray False [11, 22], NDArray False [33], PyList [7]])]\<rparr>
   \<and> Sample_add
      \<lparr>corr = NDArray False [1/10, 2/10], err = NDArray False [3/10], non_decision = 1,
        conditions = [(''a'', [NDArray False [1, 2], NDArray False [3], PyList [7]])]\<rparr>
      \<lparr>corr = NDArray False [1, 1], err = NDArray False [2], non_decision = 0,
        conditions = []\<rparr>
    = Inl (AssertionError ''Canot add with unlike conditions'')"
proof -
  let ?s = "\<lparr>corr = NDArray False [1/10, 2/10], err = NDArray False [3/10], non_decision = 1,
        conditions = [(''a'', [NDArray False [1, 2], NDArray False [3], PyList [7]])]\<rparr>"
  let ?t = "\<lparr>corr = NDArray False [1, 1], err = NDArray False [2], non_decision = 0,
        conditions = [(''a'', [NDArray False [10, 20], NDArray False [30]])]\<rparr>"
  let ?u = "\<lparr>corr = NDArray False [1, 1], err = NDArray False [2], non_decision = 0,
        conditions = []\<rparr>"
  have s: "Sample_init (NDArray True [1/10, 2/10]) (NDArray True [3/10]) 1
      [(''a'', [NDArray True [1, 2], NDArray True [3], PyList [7]])] = Inr ?s"
    by (simp add: Sample_init_def)
  have t: "Sample_init (NDArray True [1, 1]) (NDArray True [2]) 0
      [(''a'', [NDArray True [10, 20], NDArray True [30]])] = Inr ?t"
    by (simp add: Sample_init_def)
  have u: "Sample_init (NDArray True [1, 1]) (NDArray True [2]) 0 [] = Inr ?u"
    by (simp add: Sample_init_def)
  have d: "distinct (map fst [(''a'', [NDArray True [1, 2], NDArray True [3], PyList [7]])])"
          "distinct (map fst [(''a'', [NDArray True [10, 20], NDArray True [30]])])"
          "distinct (map fst ([] :: conds))"
    by simp_all
  from C5_add[OF s d(1) t d(2), THEN conjunct2, THEN mp, THEN conjunct2]
  have "Sample_add ?s ?t
    = Inr \<lparr>corr = NDArray False [11/10, 12/10], err = NDArray False [23/10], non_decision = 1,
        conditions = [(''a'', [NDArray False [11, 22], NDArray False [33], PyList [7]])]\<rparr>"
    by (simp add: condition_names_def third_def spec_added_condition_def)
  moreover from C5_add[OF s d(1) u d(3), THEN conjunct1]
  have "Sample_add ?s ?u = Inl (AssertionError ''Canot add with unlike conditions'')"
    by (simp add: condition_names_def)
  ultimately show ?thesis by simp
qed

end
